theory Spec2Isabelle
  imports Main "HOL-Library.AList" "HOL-Library.Multiset"
begin

section \<open>Values of the service\<close>

text \<open>
  The service (\<^verbatim>\<open>services/python-raw/service.py\<close>) stores what \<^verbatim>\<open>json.loads\<close> gave it
  and hands it back through \<^verbatim>\<open>json.dumps\<close>. A value is modelled by the Python object it
  is: \<open>JNull\<close> is \<^verbatim>\<open>None\<close> (JSON \<^verbatim>\<open>null\<close>), a dict is the list of its items in insertion
  order (keys are unique in a Python dict; \<open>map_of\<close> reads it). The service never
  computes with a float, so a float is carried by its literal.
\<close>

datatype json =
    JNull
  | JBool bool
  | JInt int
  | JFloat string
  | JStr string
  | JList "json list"
  | JDict "(string \<times> json) list"

text \<open>The exceptions the modelled code can raise.\<close>

datatype exn = AttributeError | KeyError | ValueError | IndexError

subsection \<open>Python sequence operations\<close>

text \<open>
  \<^verbatim>\<open>xs[i]\<close> and \<^verbatim>\<open>xs[lo:hi]\<close> with Python's meaning: a negative index counts from the
  end, an index out of range raises \<^verbatim>\<open>IndexError\<close>, a slice clamps its bounds.
\<close>

definition py_get :: "'a list \<Rightarrow> int \<Rightarrow> exn + 'a" where
  "py_get xs i =
     (if 0 \<le> i \<and> i < int (length xs) then Inr (xs ! nat i)
      else if i < 0 \<and> - int (length xs) \<le> i then Inr (xs ! nat (int (length xs) + i))
      else Inl IndexError)"

definition py_bound :: "nat \<Rightarrow> int \<Rightarrow> nat" where
  "py_bound n i = (if i < 0 then nat (max 0 (int n + i)) else min (nat i) n)"

definition py_slice :: "'a list \<Rightarrow> int \<Rightarrow> int \<Rightarrow> 'a list" where
  "py_slice xs lo hi = drop (py_bound (length xs) lo) (take (py_bound (length xs) hi) xs)"

section \<open>Message\<close>

text \<open>
  The dataclass \<^verbatim>\<open>Message\<close>. Its annotations say \<^verbatim>\<open>str\<close> for author and content, but
  nothing checks them: the handlers store whatever \<^verbatim>\<open>body.get\<close> returned, \<^verbatim>\<open>None\<close>
  included. \<^verbatim>\<open>Message.now_ns()\<close> reads the wall clock; the reading is an argument
  \<open>now\<close> of every operation that takes one.
\<close>

record Message =
  msg_id :: int
  msg_author :: json
  msg_content :: json
  msg_created :: int
  msg_updated :: int

definition Message_create :: "int \<Rightarrow> json \<Rightarrow> json \<Rightarrow> int \<Rightarrow> Message" where
  "Message_create i a c now =
     \<lparr>msg_id = i, msg_author = a, msg_content = c, msg_created = now, msg_updated = now\<rparr>"

definition to_dict :: "Message \<Rightarrow> json" where
  "to_dict m = JDict
     [(''id'', JInt (msg_id m)), (''author'', msg_author m), (''content'', msg_content m),
      (''created'', JInt (msg_created m)), (''updated'', JInt (msg_updated m))]"

section \<open>Store\<close>

text \<open>
  \<^verbatim>\<open>Store._data\<close> is a dict from id to message: the list of its items in insertion
  order, updated as a dict is (\<open>AList.update\<close> overwrites in place or appends,
  \<open>AList.delete\<close> pops). Every mutating method holds \<^verbatim>\<open>_lock\<close> for its whole body, so
  a method is one atomic step from store to store.
\<close>

record Store =
  next_id :: int
  data :: "(int \<times> Message) list"

definition Store_init :: Store where
  "Store_init = \<lparr>next_id = 0, data = []\<rparr>"

definition Store_create :: "Store \<Rightarrow> json \<Rightarrow> json \<Rightarrow> int \<Rightarrow> Message \<times> Store" where
  "Store_create s a c now =
     (let i = next_id s;
          message = Message_create i a c now
      in (message, s\<lparr>next_id := i + 1, data := AList.update i message (data s)\<rparr>))"

definition Store_get :: "Store \<Rightarrow> int \<Rightarrow> Message option" where
  "Store_get s i = map_of (data s) i"

definition Store_put :: "Store \<Rightarrow> int \<Rightarrow> json \<Rightarrow> json \<Rightarrow> int \<Rightarrow> Message option \<times> Store" where
  "Store_put s i a c now =
     (case map_of (data s) i of
        None \<Rightarrow> (None, s)
      | Some message \<Rightarrow>
          (let message' = message\<lparr>msg_author := a, msg_content := c, msg_updated := now\<rparr>
           in (Some message', s\<lparr>data := AList.update i message' (data s)\<rparr>)))"

definition Store_patch :: "Store \<Rightarrow> int \<Rightarrow> json \<Rightarrow> json \<Rightarrow> int \<Rightarrow> Message option \<times> Store" where
  "Store_patch s i a c now =
     (case map_of (data s) i of
        None \<Rightarrow> (None, s)
      | Some message \<Rightarrow>
          (let m1 = (if a \<noteq> JNull then message\<lparr>msg_author := a\<rparr> else message);
               m2 = (if c \<noteq> JNull then m1\<lparr>msg_content := c\<rparr> else m1);
               message' = m2\<lparr>msg_updated := now\<rparr>
           in (Some message', s\<lparr>data := AList.update i message' (data s)\<rparr>)))"

definition Store_delete :: "Store \<Rightarrow> int \<Rightarrow> bool \<times> Store" where
  "Store_delete s i = (map_of (data s) i \<noteq> None, s\<lparr>data := AList.delete i (data s)\<rparr>)"

subsection \<open>Histories of create and delete\<close>

text \<open>
  A history is the order in which the lock serialised the calls. \<open>run_ops\<close> runs it
  and collects the id handed out by each \<^verbatim>\<open>create\<close>, in order.
\<close>

datatype store_op = Create json json int | Delete int

fun is_Create :: "store_op \<Rightarrow> bool" where
  "is_Create (Create a c now) = True"
| "is_Create (Delete i) = False"

fun run_ops :: "Store \<Rightarrow> store_op list \<Rightarrow> int list \<times> Store" where
  "run_ops s [] = ([], s)"
| "run_ops s (Create a c now # ops) =
     (let r = Store_create s a c now;
          rest = run_ops (snd r) ops
      in (msg_id (fst r) # fst rest, snd rest))"
| "run_ops s (Delete i # ops) = run_ops (snd (Store_delete s i)) ops"

section \<open>Pagination\<close>

text \<open>
  \<^verbatim>\<open>Store.list(start, limit)\<close>. \<open>sorted_values\<close> is line 53, the stable sort of the
  dict's values by id. \<open>enumerate_find\<close> is the \<^verbatim>\<open>for index, value in enumerate(data)\<close>
  loop: the position of the first record with \<^verbatim>\<open>value.id >= start\<close>, or \<open>None\<close> when
  the loop ends without \<^verbatim>\<open>break\<close> (its \<^verbatim>\<open>else\<close> branch). The window after the current
  record ends at \<^verbatim>\<open>index + 11\<close> whatever \<^verbatim>\<open>limit\<close> is, as in the source.
\<close>

definition sorted_values :: "Store \<Rightarrow> Message list" where
  "sorted_values s = sort_key msg_id (map snd (data s))"

fun enumerate_find :: "Message list \<Rightarrow> int \<Rightarrow> nat \<Rightarrow> nat option" where
  "enumerate_find [] start index = None"
| "enumerate_find (v # vs) start index =
     (if msg_id v \<ge> start then Some index else enumerate_find vs start (Suc index))"

definition Store_list :: "Store \<Rightarrow> int \<Rightarrow> int \<Rightarrow> Message list \<times> Message option \<times> Message list" where
  "Store_list s start limit =
     (if length (data s) = 0 then ([], None, [])
      else
        (let d = sorted_values s in
         case enumerate_find d start 0 of
           None \<Rightarrow> ([], None, [])
         | Some index \<Rightarrow>
             (py_slice d (max 0 (int index - limit)) (int index),
              Some (d ! index),
              py_slice d (int index + 1) (min (int (length d)) (int index + 11)))))"

text \<open>
  The page that \<^verbatim>\<open>MessageHandlers.list\<close> builds (lines 106 to 113), before it is turned
  into JSON. The handler's local \<^verbatim>\<open>limit = 10\<close> is the parameter \<open>limit\<close> here, so that
  the engine can be asked about other sizes; the handler below passes 10.
  \<^verbatim>\<open>after[limit-1]\<close> is a Python index and can raise.
\<close>

record page =
  pg_data :: "Message list"
  pg_next :: "int option"
  pg_previous :: "int option"

definition page :: "Store \<Rightarrow> int \<Rightarrow> int \<Rightarrow> exn + page" where
  "page s start limit =
     (case Store_list s start limit of
        (before_records, current, after) \<Rightarrow>
          (let previous = (if length before_records > 0 then Some (msg_id (before_records ! 0)) else None) in
           case current of
             None \<Rightarrow> Inr \<lparr>pg_data = [], pg_next = None, pg_previous = previous\<rparr>
           | Some c \<Rightarrow>
               (let d = [c] @ (if length after > 0 then py_slice after 0 (limit - 1) else []) in
                if int (length after) = limit
                then (case py_get after (limit - 1) of
                        Inl e \<Rightarrow> Inl e
                      | Inr m \<Rightarrow> Inr \<lparr>pg_data = d, pg_next = Some (msg_id m), pg_previous = previous\<rparr>)
                else Inr \<lparr>pg_data = d, pg_next = None, pg_previous = previous\<rparr>)))"

text \<open>
  A client that reads the whole collection: it asks for the page at \<open>start\<close> and
  follows \<open>next\<close> until a page has none, concatenating the pages. Nothing in the
  service bounds the number of rounds, so the client carries fuel: \<open>None\<close> means it
  ran out before a page without \<open>next\<close> arrived.
\<close>

fun roundtrip :: "nat \<Rightarrow> Store \<Rightarrow> int \<Rightarrow> (exn + Message list) option" where
  "roundtrip 0 s start = None"
| "roundtrip (Suc fuel) s start =
     (case page s start 10 of
        Inl e \<Rightarrow> Some (Inl e)
      | Inr p \<Rightarrow>
          (case pg_next p of
             None \<Rightarrow> Some (Inr (pg_data p))
           | Some c \<Rightarrow>
               (case roundtrip fuel s c of
                  None \<Rightarrow> None
                | Some (Inl e) \<Rightarrow> Some (Inl e)
                | Some (Inr ms) \<Rightarrow> Some (Inr (pg_data p @ ms)))))"

section \<open>Handlers\<close>

text \<open>
  A handler receives the store, the method, the version, the path parameters
  (\<^verbatim>\<open>match.groupdict()\<close>), the query (\<^verbatim>\<open>parse_qs\<close>: a list of values per key) and the
  body (\<open>None\<close> when the request had none), and returns a tuple of one to three items,
  which the dispatcher pads with \<^verbatim>\<open>None\<close>: a status, a body, headers. Here it also
  receives the clock reading it would take, and returns the store it leaves. A handler
  that raises has not yet touched the store: each handler of the service evaluates the
  arguments that can fail before it calls the store.
\<close>

datatype HTTPStatus =
    OK | CREATED | BAD_REQUEST | NOT_FOUND | METHOD_NOT_ALLOWED | NOT_ACCEPTABLE
  | GONE | REQUEST_URI_TOO_LONG | INTERNAL_SERVER_ERROR

fun status_value :: "HTTPStatus \<Rightarrow> nat" where
  "status_value OK = 200"
| "status_value CREATED = 201"
| "status_value BAD_REQUEST = 400"
| "status_value NOT_FOUND = 404"
| "status_value METHOD_NOT_ALLOWED = 405"
| "status_value NOT_ACCEPTABLE = 406"
| "status_value GONE = 410"
| "status_value REQUEST_URI_TOO_LONG = 414"
| "status_value INTERNAL_SERVER_ERROR = 500"

text \<open>The members of \<^verbatim>\<open>http.HTTPMethod\<close>; \<^verbatim>\<open>HTTPMethod(command)\<close> raises on any other string.\<close>

datatype HTTPMethod = CONNECT | DELETE | GET | HEAD | OPTIONS | PATCH | POST | PUT | TRACE

definition HTTPMethod_of :: "string \<Rightarrow> exn + HTTPMethod" where
  "HTTPMethod_of command =
     (if command = ''CONNECT'' then Inr CONNECT
      else if command = ''DELETE'' then Inr DELETE
      else if command = ''GET'' then Inr GET
      else if command = ''HEAD'' then Inr HEAD
      else if command = ''OPTIONS'' then Inr OPTIONS
      else if command = ''PATCH'' then Inr PATCH
      else if command = ''POST'' then Inr POST
      else if command = ''PUT'' then Inr PUT
      else if command = ''TRACE'' then Inr TRACE
      else Inl ValueError)"

text \<open>
  A header value is kept by what it was built from: the content type with its optional
  version parameter, a literal, an at sign followed by the integer \<open>t\<close>, and \<^verbatim>\<open>formatdate(timeval=t, usegmt=True)\<close>.
  Headers a handler returns are a dict (items in insertion order).
\<close>

datatype header_value = ContentType "int option" | Literal string | AtTime int | HttpDate int

type_synonym headers = "(string \<times> header_value) list"
type_synonym params = "(string \<times> string) list"
type_synonym query = "(string \<times> string list) list"
type_synonym handler_result = "HTTPStatus \<times> json option \<times> headers option"
type_synonym handler =
  "int \<Rightarrow> Store \<Rightarrow> HTTPMethod \<Rightarrow> int \<Rightarrow> params \<Rightarrow> query \<Rightarrow> json option
     \<Rightarrow> exn + (handler_result \<times> Store)"

text \<open>
  \<^verbatim>\<open>int(text)\<close> in base ten. A text is modelled by its code points, all below 256 (the
  request line is decoded as ISO-8859-1; there the decimal digits are 0 to 9). Blanks
  around the number are dropped; then come an optional sign and the digits, where a
  single underscore may stand between two digits. A text of more than 4300 digits is
  refused, 4300 being the interpreter's default for \<^verbatim>\<open>sys.get_int_max_str_digits()\<close>.
  Every other text is a \<^verbatim>\<open>ValueError\<close>.
\<close>

definition is_digit :: "char \<Rightarrow> bool" where
  "is_digit c = (c \<in> set ''0123456789'')"

definition is_space :: "char \<Rightarrow> bool" where
  "is_space c = ((of_char c :: nat) \<in> set [9, 10, 11, 12, 13, 28, 29, 30, 31, 32, 133, 160])"

definition py_strip :: "string \<Rightarrow> string" where
  "py_strip t = rev (dropWhile is_space (rev (dropWhile is_space t)))"

fun digit_groups :: "string \<Rightarrow> bool" where
  "digit_groups [] = False"
| "digit_groups [c] = is_digit c"
| "digit_groups (c # d # cs) =
     (is_digit c \<and> (if d = CHR ''_'' then digit_groups cs else digit_groups (d # cs)))"

definition digits_value :: "string \<Rightarrow> int" where
  "digits_value ds = foldl (\<lambda>acc c. 10 * acc + (of_char c - 48)) 0 ds"

definition py_int_unsigned :: "string \<Rightarrow> exn + int" where
  "py_int_unsigned ds =
     (if digit_groups ds \<and> length (filter is_digit ds) \<le> 4300
      then Inr (digits_value (filter is_digit ds))
      else Inl ValueError)"

definition py_int :: "string \<Rightarrow> exn + int" where
  "py_int t =
     (case py_strip t of
        [] \<Rightarrow> Inl ValueError
      | c # cs \<Rightarrow>
          if c = CHR ''-'' then
            (case py_int_unsigned cs of Inl e \<Rightarrow> Inl e | Inr n \<Rightarrow> Inr (- n))
          else if c = CHR ''+'' then py_int_unsigned cs
          else py_int_unsigned (c # cs))"

text \<open>
  \<^verbatim>\<open>body.get(key)\<close>: only a dict has \<^verbatim>\<open>get\<close>, and a missing key gives \<^verbatim>\<open>None\<close>.
  \<^verbatim>\<open>params[key]\<close> raises \<^verbatim>\<open>KeyError\<close> on a missing key.
\<close>

definition body_get :: "json option \<Rightarrow> string \<Rightarrow> exn + json" where
  "body_get body key =
     (case body of
        Some (JDict d) \<Rightarrow> Inr (case map_of d key of None \<Rightarrow> JNull | Some v \<Rightarrow> v)
      | _ \<Rightarrow> Inl AttributeError)"

definition params_id :: "params \<Rightarrow> exn + int" where
  "params_id ps = (case map_of ps ''id'' of None \<Rightarrow> Inl KeyError | Some t \<Rightarrow> py_int t)"

definition error_body :: "string \<Rightarrow> json" where
  "error_body msg = JDict [(''error'', JStr msg)]"

definition MessageHandlers_create :: handler where
  "MessageHandlers_create now store method version ps q body =
     (case body_get body ''author'' of
        Inl e \<Rightarrow> Inl e
      | Inr a \<Rightarrow>
          (case body_get body ''content'' of
             Inl e \<Rightarrow> Inl e
           | Inr c \<Rightarrow>
               (case Store_create store a c now of
                  (message, store') \<Rightarrow> Inr ((CREATED, Some (to_dict message), None), store'))))"

definition MessageHandlers_get :: handler where
  "MessageHandlers_get now store method version ps q body =
     (case params_id ps of
        Inl e \<Rightarrow> Inl e
      | Inr i \<Rightarrow>
          (case Store_get store i of
             None \<Rightarrow>
               Inr ((NOT_FOUND, Some (error_body ''Message with provided id not found.''), None), store)
           | Some message \<Rightarrow> Inr ((OK, Some (to_dict message), None), store)))"

definition cursor_json :: "int option \<Rightarrow> json" where
  "cursor_json c = (case c of None \<Rightarrow> JNull | Some i \<Rightarrow> JInt i)"

definition page_json :: "page \<Rightarrow> json" where
  "page_json p = JDict
     [(''data'', JList (map to_dict (pg_data p))),
      (''next'', cursor_json (pg_next p)),
      (''previous'', cursor_json (pg_previous p))]"

definition query_start :: "query \<Rightarrow> exn + int" where
  "query_start q =
     (case map_of q ''start'' of
        None \<Rightarrow> Inr 0
      | Some vs \<Rightarrow> (case py_get vs 0 of Inl e \<Rightarrow> Inl e | Inr t \<Rightarrow> py_int t))"

definition MessageHandlers_list :: handler where
  "MessageHandlers_list now store method version ps q body =
     (case query_start q of
        Inl e \<Rightarrow> Inl e
      | Inr start \<Rightarrow>
          (case page store start 10 of
             Inl e \<Rightarrow> Inl e
           | Inr p \<Rightarrow> Inr ((OK, Some (page_json p), None), store)))"

definition MessageHandlers_put :: handler where
  "MessageHandlers_put now store method version ps q body =
     (case params_id ps of
        Inl e \<Rightarrow> Inl e
      | Inr i \<Rightarrow>
          (case body_get body ''author'' of
             Inl e \<Rightarrow> Inl e
           | Inr a \<Rightarrow>
               (case body_get body ''content'' of
                  Inl e \<Rightarrow> Inl e
                | Inr c \<Rightarrow>
                    (case Store_put store i a c now of
                       (None, store') \<Rightarrow>
                         Inr ((NOT_FOUND, Some (error_body ''Message with provided id not found''), None),
                              store')
                     | (Some message, store') \<Rightarrow>
                         Inr ((OK, Some (to_dict message), None), store')))))"

definition MessageHandlers_patch :: handler where
  "MessageHandlers_patch now store method version ps q body =
     (case params_id ps of
        Inl e \<Rightarrow> Inl e
      | Inr i \<Rightarrow>
          (case body_get body ''author'' of
             Inl e \<Rightarrow> Inl e
           | Inr a \<Rightarrow>
               (case body_get body ''content'' of
                  Inl e \<Rightarrow> Inl e
                | Inr c \<Rightarrow>
                    (case Store_patch store i a c now of
                       (None, store') \<Rightarrow>
                         Inr ((NOT_FOUND, Some (error_body ''Message with provided id not found''), None),
                              store')
                     | (Some message, store') \<Rightarrow>
                         Inr ((OK, Some (to_dict message), None), store')))))"

definition MessageHandlers_delete :: handler where
  "MessageHandlers_delete now store method version ps q body =
     (case params_id ps of
        Inl e \<Rightarrow> Inl e
      | Inr i \<Rightarrow>
          (case Store_delete store i of
             (False, store') \<Rightarrow>
               Inr ((NOT_FOUND, Some (error_body ''Message with provided id not found''), None), store')
           | (True, store') \<Rightarrow> Inr ((OK, None, None), store')))"

section \<open>Router and dispatcher\<close>

text \<open>
  The router is \<^verbatim>\<open>router[VERSION][METHOD][PATH_REGEX] = HANDLER\<close>, three nested dicts;
  each is the list of its items in insertion order, which for the innermost is the
  order in which the patterns are tried. The service registers four patterns, and
  \<open>fullmatch\<close> is \<^verbatim>\<open>re.fullmatch\<close> on them, returning the named groups:
  \<^item> \<open>AnyPath\<close> is \<^verbatim>\<open>.*\<close> (the dot matches every character but a newline);
  \<^item> \<open>RootPath\<close> is \<^verbatim>\<open>/?\<close>;
  \<^item> \<open>MessagePath\<close> is \<^verbatim>\<open>/message/?\<close>;
  \<^item> \<open>MessageIdPath\<close> is \<^verbatim>\<open>/message/(?P<id>\d+)/?\<close>. The path comes from a request line
    decoded as ISO-8859-1, where the only decimal digits are 0 to 9.
\<close>

datatype pattern = AnyPath | RootPath | MessagePath | MessageIdPath

fun fullmatch :: "pattern \<Rightarrow> string \<Rightarrow> params option" where
  "fullmatch AnyPath path = (if CHR 0x0A \<in> set path then None else Some [])"
| "fullmatch RootPath path = (if path = [] \<or> path = ''/'' then Some [] else None)"
| "fullmatch MessagePath path =
     (if path = ''/message'' \<or> path = ''/message/'' then Some [] else None)"
| "fullmatch MessageIdPath path =
     (if take 9 path = ''/message/'' then
        (let r = drop 9 path;
             ds = (if r \<noteq> [] \<and> last r = CHR ''/'' then butlast r else r)
         in if ds \<noteq> [] \<and> list_all is_digit ds then Some [(''id'', ds)] else None)
      else None)"

type_synonym routes = "(pattern \<times> handler) list"
type_synonym router = "(int \<times> (HTTPMethod \<times> routes) list) list"
type_synonym deprecation = "(int \<times> (int \<times> int)) list"

text \<open>
  The loop over \<^verbatim>\<open>request_paths.items()\<close>: the first pattern that matches wins;
  \<open>None\<close> is the loop's \<^verbatim>\<open>else\<close> branch.
\<close>

fun find_route :: "routes \<Rightarrow> string \<Rightarrow> (handler \<times> params) option" where
  "find_route [] path = None"
| "find_route ((regex, h) # rest) path =
     (case fullmatch regex path of
        Some ps \<Rightarrow> Some (h, ps)
      | None \<Rightarrow> find_route rest path)"

text \<open>
  What \<^verbatim>\<open>handle_one_request\<close> has in hand once \<^verbatim>\<open>parse_request\<close> succeeded, each
  field being the outcome of the library calls of one of its steps:
  \<^item> \<open>rq_command\<close> is \<^verbatim>\<open>self.command\<close>;
  \<^item> \<open>rq_body\<close> is the outcome of lines 161 to 165: no body (no positive
    \<^verbatim>\<open>Content-Length\<close>), an exception other than \<^verbatim>\<open>JSONDecodeError\<close> (bytes that are not
    UTF-8), a \<^verbatim>\<open>JSONDecodeError\<close> (suppressed), or the decoded value;
  \<^item> \<open>rq_version\<close> is \<^verbatim>\<open>request_version\<close> after line 172: the integer found in the
    \<^verbatim>\<open>Accept\<close> header, or \<open>None\<close> when anything there raised;
  \<^item> \<open>rq_target\<close> is the outcome of lines 184 to 186: the path and the parsed query, or
    the exception \<^verbatim>\<open>urlsplit\<close> raised.
\<close>

datatype body_read = NoBody | BodyRaises | BodyNotJSON | BodyJSON json

record request =
  rq_command :: string
  rq_body :: body_read
  rq_version :: "int option"
  rq_target :: "exn + (string \<times> query)"

text \<open>
  What the connection delivers to \<^verbatim>\<open>handle_one_request\<close>: a request line longer than
  65536 bytes, nothing, a request line \<^verbatim>\<open>parse_request\<close> refuses (it answers by itself),
  or a request.
\<close>

datatype connection_input = LineTooLong | NoData | BadRequestLine | Request request

record response =
  rs_status :: nat
  rs_headers :: headers
  rs_body :: "json option"

definition respond :: "HTTPStatus \<Rightarrow> int option \<Rightarrow> json option \<Rightarrow> headers option \<Rightarrow> response" where
  "respond status version body hs =
     \<lparr>rs_status = status_value status,
      rs_headers =
        [(''Content-Type'', ContentType version),
         (''Cache-Control'', Literal ''no-store''),
         (''Connection'', Literal ''close'')]
        @ (case hs of None \<Rightarrow> [] | Some h \<Rightarrow> h),
      rs_body = body\<rparr>"

text \<open>The \<^verbatim>\<open>except Exception\<close> branch.\<close>

definition internal_error :: response where
  "internal_error = respond INTERNAL_SERVER_ERROR None (Some (error_body ''Internal error.'')) None"

text \<open>Lines 201 to 205: the deprecation headers are written into the handler's headers.\<close>

definition deprecate :: "deprecation \<Rightarrow> int \<Rightarrow> headers option \<Rightarrow> headers option" where
  "deprecate dep version hs =
     (case map_of dep version of
        None \<Rightarrow> hs
      | Some (deprecated_at, sunset_at) \<Rightarrow>
          Some (AList.update ''Sunset'' (HttpDate sunset_at)
                 (AList.update ''Deprecation'' (AtTime deprecated_at)
                    (case hs of None \<Rightarrow> [] | Some h \<Rightarrow> h))))"

text \<open>
  Lines 170 to 206 of \<^verbatim>\<open>handle_one_request\<close>, with the body the first part decoded.
  Every exception ends in the \<^verbatim>\<open>except\<close> branch.
\<close>

definition dispatch ::
  "router \<Rightarrow> deprecation \<Rightarrow> int \<Rightarrow> Store \<Rightarrow> request \<Rightarrow> json option \<Rightarrow> response \<times> Store" where
  "dispatch rt dep now store rq request_body =
     (let not_acceptable =
            respond NOT_ACCEPTABLE None (Some (error_body ''Invalid or missing version.'')) None in
      case rq_version rq of
        None \<Rightarrow> (not_acceptable, store)
      | Some request_version \<Rightarrow>
          (case map_of rt request_version of
             None \<Rightarrow> (not_acceptable, store)
           | Some methods \<Rightarrow>
               (case HTTPMethod_of (rq_command rq) of
                  Inl e \<Rightarrow> (internal_error, store)
                | Inr request_method \<Rightarrow>
                    (case map_of methods request_method of
                       None \<Rightarrow>
                         (respond METHOD_NOT_ALLOWED None (Some (error_body ''Method not allowed.'')) None,
                          store)
                     | Some request_paths \<Rightarrow>
                         (case rq_target rq of
                            Inl e \<Rightarrow> (internal_error, store)
                          | Inr (request_path, request_query) \<Rightarrow>
                              (case find_route request_paths request_path of
                                 None \<Rightarrow>
                                   (respond NOT_FOUND (Some request_version)
                                      (Some (error_body ''Resource not found.'')) None,
                                    store)
                               | Some (request_handler, request_params) \<Rightarrow>
                                   (case request_handler now store request_method request_version
                                           request_params request_query request_body of
                                      Inl e \<Rightarrow> (internal_error, store)
                                    | Inr ((response_status, response_body, response_headers), store') \<Rightarrow>
                                        (respond response_status (Some request_version) response_body
                                           (deprecate dep request_version response_headers),
                                         store'))))))))"

text \<open>
  \<^verbatim>\<open>handle_one_request\<close>. \<open>None\<close> means that this method itself sends nothing (the
  connection is closed, or \<^verbatim>\<open>parse_request\<close> has already answered).
\<close>

definition handle_one_request ::
  "router \<Rightarrow> deprecation \<Rightarrow> int \<Rightarrow> Store \<Rightarrow> connection_input \<Rightarrow> response option \<times> Store" where
  "handle_one_request rt dep now store input =
     (let malformed = respond BAD_REQUEST None (Some (error_body ''Malformed JSON body.'')) None in
      case input of
        LineTooLong \<Rightarrow>
          (Some (respond REQUEST_URI_TOO_LONG None (Some (error_body ''Request URI too long.'')) None),
           store)
      | NoData \<Rightarrow> (None, store)
      | BadRequestLine \<Rightarrow> (None, store)
      | Request rq \<Rightarrow>
          (case rq_body rq of
             BodyRaises \<Rightarrow> (Some internal_error, store)
           | BodyNotJSON \<Rightarrow> (Some malformed, store)
           | NoBody \<Rightarrow> (case dispatch rt dep now store rq None of (r, store') \<Rightarrow> (Some r, store'))
           | BodyJSON j \<Rightarrow>
               if j = JNull then (Some malformed, store)
               else (case dispatch rt dep now store rq (Some j) of (r, store') \<Rightarrow> (Some r, store'))))"

subsection \<open>The tables of \<^verbatim>\<open>main\<close>\<close>

definition gone :: handler where
  "gone now store method version ps q body = Inr ((GONE, None, None), store)"

definition health :: handler where
  "health now store method version ps q body =
     Inr ((OK, Some (JDict [(''status'', JStr ''OK'')]), None), store)"

definition message_routes :: "(HTTPMethod \<times> routes) list" where
  "message_routes =
     [(GET, [(RootPath, health), (MessageIdPath, MessageHandlers_get),
             (MessagePath, MessageHandlers_list)]),
      (POST, [(MessagePath, MessageHandlers_create)]),
      (PUT, [(MessageIdPath, MessageHandlers_put)]),
      (PATCH, [(MessageIdPath, MessageHandlers_patch)]),
      (DELETE, [(MessageIdPath, MessageHandlers_delete)])]"

definition main_router :: router where
  "main_router =
     [(0, [(GET, [(AnyPath, gone)]), (POST, [(AnyPath, gone)]), (PUT, [(AnyPath, gone)]),
           (PATCH, [(AnyPath, gone)]), (DELETE, [(AnyPath, gone)])]),
      (1, message_routes),
      (2, message_routes)]"

text \<open>
  \<^verbatim>\<open>main\<close> reads \<^verbatim>\<open>int(time.time())\<close> four times for the deprecation table; \<open>t1\<close> to \<open>t4\<close>
  are the four readings.
\<close>

definition main_deprecation :: "int \<Rightarrow> int \<Rightarrow> int \<Rightarrow> int \<Rightarrow> deprecation" where
  "main_deprecation t1 t2 t3 t4 =
     [(0, (t1 - 60 * 60 * 24 * 30, t2)), (1, (t3, t4 + 60 * 60 * 24 * 30))]"

definition has_header :: "response \<Rightarrow> string \<Rightarrow> bool" where
  "has_header r name = (map_of (rs_headers r) name \<noteq> None)"

subsection \<open>Example stores\<close>

text \<open>The store after twelve \<^verbatim>\<open>create\<close> calls, and after three.\<close>

definition twelve :: Store where
  "twelve = snd (run_ops Store_init (map (\<lambda>k. Create (JStr ''a'') (JStr ''x'') (int k)) [0..<12]))"

definition three :: Store where
  "three = snd (run_ops Store_init (map (\<lambda>k. Create (JStr ''a'') (JStr ''x'') (int k)) [0..<3]))"

subsection \<open>Example requests\<close>

text \<open>
  Requests as \<^verbatim>\<open>handle_one_request\<close> sees them, the version taken from the \<^verbatim>\<open>Accept\<close>
  header: \<^verbatim>\<open>GET /\<close>, \<^verbatim>\<open>GET /nope\<close>, \<^verbatim>\<open>GET /message/999\<close> and \<^verbatim>\<open>FOO /\<close> under version 1,
  \<^verbatim>\<open>DELETE /message/7\<close> and \<^verbatim>\<open>HEAD /\<close> under version 0.
\<close>

definition get_root_v1 :: request where
  "get_root_v1 = \<lparr>rq_command = ''GET'', rq_body = NoBody, rq_version = Some 1, rq_target = Inr (''/'', [])\<rparr>"

definition get_nope_v1 :: request where
  "get_nope_v1 = \<lparr>rq_command = ''GET'', rq_body = NoBody, rq_version = Some 1, rq_target = Inr (''/nope'', [])\<rparr>"

definition get_missing_v1 :: request where
  "get_missing_v1 = \<lparr>rq_command = ''GET'', rq_body = NoBody, rq_version = Some 1, rq_target = Inr (''/message/999'', [])\<rparr>"

definition foo_root_v1 :: request where
  "foo_root_v1 = \<lparr>rq_command = ''FOO'', rq_body = NoBody, rq_version = Some 1, rq_target = Inr (''/'', [])\<rparr>"

definition delete_item_v0 :: request where
  "delete_item_v0 = \<lparr>rq_command = ''DELETE'', rq_body = NoBody, rq_version = Some 0, rq_target = Inr (''/message/7'', [])\<rparr>"

definition head_root_v0 :: request where
  "head_root_v0 = \<lparr>rq_command = ''HEAD'', rq_body = NoBody, rq_version = Some 0, rq_target = Inr (''/'', [])\<rparr>"


section \<open>Identifiers\<close>

lemma Store_create_next_id: "next_id (snd (Store_create s a c now)) = next_id s + 1"
  by (simp add: Store_create_def Let_def)

lemma Store_create_msg_id: "msg_id (fst (Store_create s a c now)) = next_id s"
  by (simp add: Store_create_def Let_def Message_create_def)

lemma Store_delete_next_id: "next_id (snd (Store_delete s i)) = next_id s"
  by (simp add: Store_delete_def)

lemma run_ops_ids:
  "fst (run_ops s ops) = map (\<lambda>k. next_id s + int k) [0..<length (filter is_Create ops)]"
proof (induction ops arbitrary: s)
  case Nil
  show ?case by simp
next
  case (Cons op ops)
  show ?case
  proof (cases op)
    case (Create a c now)
    let ?n = "length (filter is_Create ops)"
    have "fst (run_ops s (op # ops)) =
        next_id s # map (\<lambda>k. next_id s + 1 + int k) [0..<?n]"
      by (simp add: Create Let_def Cons.IH Store_create_next_id Store_create_msg_id)
    also have "\<dots> = map (\<lambda>k. next_id s + int k) [0..<Suc ?n]"
      by (simp add: upt_conv_Cons map_Suc_upt [symmetric] del: upt_Suc)
    finally show ?thesis by (simp add: Create)
  next
    case (Delete i)
    then show ?thesis by (simp add: Cons.IH Store_delete_next_id)
  qed
qed

text \<open>
  C8. Whatever the history of \<^verbatim>\<open>create\<close> and \<^verbatim>\<open>delete\<close> calls on a fresh store, the
  ids handed out are 0, 1, 2, ... in the order of creation: they start at 0, increase
  strictly, are pairwise distinct, and a delete never makes an id available again.
\<close>

theorem create_ids_monotonic:
  "fst (run_ops Store_init ops) = map int [0..<length (filter is_Create ops)]
   \<and> sorted_wrt (<) (fst (run_ops Store_init ops))
   \<and> distinct (fst (run_ops Store_init ops))"
proof -
  have eq: "fst (run_ops Store_init ops) = map int [0..<length (filter is_Create ops)]"
    by (simp add: run_ops_ids Store_init_def)
  have "sorted_wrt (<) (map int [0..<length (filter is_Create ops)])"
    by (simp add: sorted_wrt_map)
  moreover have "distinct (map int [0..<length (filter is_Create ops)])"
    by (simp add: distinct_map)
  ultimately show ?thesis using eq by simp
qed

section \<open>Pagination: the engine\<close>

lemma enumerate_find_None: "enumerate_find xs start k = None \<longleftrightarrow> (\<forall>m\<in>set xs. msg_id m < start)"
  by (induction xs arbitrary: k) auto

lemma enumerate_find_Some:
  "enumerate_find xs start k = Some i \<Longrightarrow>
     k \<le> i \<and> i - k < length xs \<and> start \<le> msg_id (xs ! (i - k)) \<and> (\<forall>j<i - k. msg_id (xs ! j) < start)"
proof (induction xs arbitrary: k)
  case Nil
  then show ?case by simp
next
  case (Cons v vs)
  show ?case
  proof (cases "start \<le> msg_id v")
    case True
    with Cons.prems show ?thesis by simp
  next
    case False
    with Cons.prems have rec: "enumerate_find vs start (Suc k) = Some i" by simp
    from Cons.IH [OF rec] have ih: "Suc k \<le> i" "i - Suc k < length vs"
      "start \<le> msg_id (vs ! (i - Suc k))" "\<forall>j<i - Suc k. msg_id (vs ! j) < start" by auto
    have eq: "i - k = Suc (i - Suc k)" using ih(1) by simp
    show ?thesis using ih False
      by (auto simp: eq nth_Cons split: nat.splits)
  qed
qed

lemma py_slice_before:
  "i \<le> length d \<Longrightarrow> py_slice d (max 0 (int i - limit)) (int i) = drop (nat (int i - limit)) (take i d)"
  by (auto simp: py_slice_def py_bound_def max_def min_def)

lemma py_slice_after:
  "i < length d \<Longrightarrow> py_slice d (int i + 1) (min (int (length d)) (int i + 11)) = take 10 (drop (Suc i) d)"
  by (auto simp: py_slice_def py_bound_def min_def nat_add_distrib drop_take)

lemma py_slice_body: "1 \<le> limit \<Longrightarrow> py_slice xs 0 (limit - 1) = take (nat (limit - 1)) xs"
  by (auto simp: py_slice_def py_bound_def min_def)

lemma enumerate_find_first:
  "i < length xs \<Longrightarrow> start \<le> msg_id (xs ! i) \<Longrightarrow> (\<forall>j<i. msg_id (xs ! j) < start)
     \<Longrightarrow> enumerate_find xs start k = Some (k + i)"
proof (induction xs arbitrary: i k)
  case Nil
  then show ?case by simp
next
  case (Cons v vs)
  show ?case
  proof (cases i)
    case 0
    with Cons.prems show ?thesis by simp
  next
    case (Suc i')
    from Cons.prems(3) Suc have "msg_id v < start" by auto
    moreover have "enumerate_find vs start (Suc k) = Some (Suc k + i')"
    proof (rule Cons.IH)
      show "i' < length vs" using Cons.prems(1) Suc by simp
      show "start \<le> msg_id (vs ! i')" using Cons.prems(2) Suc by simp
      show "\<forall>j<i'. msg_id (vs ! j) < start"
      proof (intro allI impI)
        fix j assume "j < i'"
        then have "Suc j < i" using Suc by simp
        with Cons.prems(3) have "msg_id ((v # vs) ! Suc j) < start" by blast
        then show "msg_id (vs ! j) < start" by simp
      qed
    qed
    ultimately show ?thesis using Suc by simp
  qed
qed

lemma length_sorted_values: "length (sorted_values s) = length (data s)"
  by (simp add: sorted_values_def)

lemma sorted_values_Nil: "sorted_values s = [] \<longleftrightarrow> data s = []"
  using length_sorted_values [of s] by (simp del: length_sorted_values flip: length_0_conv)

lemma Store_list_None:
  "enumerate_find (sorted_values s) start 0 = None \<Longrightarrow> Store_list s start limit = ([], None, [])"
  by (simp add: Store_list_def Let_def)

lemma Store_list_Some:
  assumes "enumerate_find (sorted_values s) start 0 = Some i"
  shows "Store_list s start limit =
     (drop (nat (int i - limit)) (take i (sorted_values s)),
      Some (sorted_values s ! i),
      take 10 (drop (Suc i) (sorted_values s)))"
proof -
  from enumerate_find_Some [OF assms] have lt: "i < length (sorted_values s)" by simp
  then have "sorted_values s \<noteq> []" by auto
  then have ne: "data s \<noteq> []" by (simp add: sorted_values_Nil)
  show ?thesis
    using ne lt assms
    by (simp add: Store_list_def Let_def py_slice_before py_slice_after)
qed

lemma page_of_window:
  assumes "Store_list s start limit = (b, Some c, a)" and "1 \<le> limit"
  shows "page s start limit =
     Inr \<lparr>pg_data = c # take (nat (limit - 1)) a,
          pg_next = (if int (length a) = limit then Some (msg_id (a ! nat (limit - 1))) else None),
          pg_previous = (if length b > 0 then Some (msg_id (b ! 0)) else None)\<rparr>"
  using assms by (auto simp: page_def Let_def py_slice_body py_get_def)

lemma page_ten:
  assumes "enumerate_find (sorted_values s) start 0 = Some i"
  shows "\<exists>p. page s start 10 = Inr p
     \<and> pg_data p = take 10 (drop i (sorted_values s))
     \<and> pg_next p = (if i + 10 < length (sorted_values s)
                    then Some (msg_id (sorted_values s ! (i + 10))) else None)"
proof -
  let ?d = "sorted_values s"
  from enumerate_find_Some [OF assms] have lt: "i < length ?d" by simp
  have hd: "take 10 (drop i ?d) = ?d ! i # take 9 (take 10 (drop (Suc i) ?d))"
    using lt by (simp add: Cons_nth_drop_Suc [symmetric])
  have len: "int (length (take 10 (drop (Suc i) ?d))) = 10 \<longleftrightarrow> i + 10 < length ?d"
    by auto
  have nth: "i + 10 < length ?d \<Longrightarrow> take 10 (drop (Suc i) ?d) ! 9 = ?d ! (i + 10)"
    by (simp add: add.commute)
  show ?thesis
    using page_of_window [OF Store_list_Some [OF assms], of 10] hd len nth
    by auto
qed

lemma enumerate_find_at:
  assumes "sorted_wrt (<) (map msg_id d)" and "i < length d"
  shows "enumerate_find d (msg_id (d ! i)) 0 = Some i"
proof -
  have "\<forall>j<i. msg_id (d ! j) < msg_id (d ! i)"
  proof (intro allI impI)
    fix j assume "j < i"
    with assms have "map msg_id d ! j < map msg_id d ! i"
      by (intro sorted_wrt_nth_less) auto
    with assms \<open>j < i\<close> show "msg_id (d ! j) < msg_id (d ! i)" by simp
  qed
  with enumerate_find_first [of i d "msg_id (d ! i)" 0] assms(2) show ?thesis by simp
qed

lemma roundtrip_from:
  assumes strict: "sorted_wrt (<) (map msg_id (sorted_values s))"
  shows "i < length (sorted_values s) \<Longrightarrow> length (sorted_values s) - i \<le> 10 * fuel
     \<Longrightarrow> roundtrip fuel s (msg_id (sorted_values s ! i)) = Some (Inr (drop i (sorted_values s)))"
proof (induction fuel arbitrary: i)
  case 0
  then show ?case by simp
next
  case (Suc fuel)
  let ?d = "sorted_values s"
  from page_ten [OF enumerate_find_at [OF strict Suc.prems(1)]]
  obtain p where p: "page s (msg_id (?d ! i)) 10 = Inr p"
    and dat: "pg_data p = take 10 (drop i ?d)"
    and nxt: "pg_next p = (if i + 10 < length ?d then Some (msg_id (?d ! (i + 10))) else None)"
    by blast
  show ?case
  proof (cases "i + 10 < length ?d")
    case False
    then have "take 10 (drop i ?d) = drop i ?d" by simp
    with p dat nxt False show ?thesis by simp
  next
    case True
    have "roundtrip fuel s (msg_id (?d ! (i + 10))) = Some (Inr (drop (i + 10) ?d))"
      using True Suc.prems(2) by (intro Suc.IH) auto
    moreover have "take 10 (drop i ?d) @ drop (i + 10) ?d = drop i ?d"
      by (metis add.commute append_take_drop_id drop_drop)
    ultimately show ?thesis using p dat nxt True by simp
  qed
qed

lemma roundtrip_empty:
  assumes "sorted_values s = []"
  shows "roundtrip (Suc fuel) s start = Some (Inr [])"
proof -
  have "Store_list s start 10 = ([], None, [])"
    using assms by (intro Store_list_None) simp
  then have "page s start 10 = Inr \<lparr>pg_data = [], pg_next = None, pg_previous = None\<rparr>"
    by (simp add: page_def)
  then show ?thesis by simp
qed

lemma sorted_values_ids:
  assumes "mset (map msg_id (map snd (data s))) = mset (map int [0..<N])"
  shows "map msg_id (sorted_values s) = map int [0..<N]"
proof -
  have "mset (map msg_id (sorted_values s)) = mset (map msg_id (map snd (data s)))"
    by (simp add: sorted_values_def multiset.map_comp)
  from this assms have "mset (map msg_id (sorted_values s)) = mset (map int [0..<N])"
    by (rule trans)
  moreover have "sorted (map msg_id (sorted_values s))"
    by (simp add: sorted_values_def)
  ultimately have "sort (map int [0..<N]) = map msg_id (sorted_values s)"
    by (intro properties_for_sort) auto
  moreover have "sort (map int [0..<N]) = map int [0..<N]"
    by (intro sorted_sort_id) (simp add: sorted_map)
  ultimately show ?thesis by simp
qed

text \<open>
  C1. In a store whose records have the ids 0, ..., N - 1 (each once), the client that
  asks for the page at 0 with size 10 and follows \<open>next\<close> until it is absent stops
  (any fuel above \<open>N div 10\<close> is enough) and has then read every record exactly once,
  in ascending order of id.
\<close>

theorem pagination_roundtrip:
  assumes ids: "mset (map msg_id (map snd (data s))) = mset (map int [0..<N])"
    and fuel: "N div 10 < fuel"
  shows "roundtrip fuel s 0 = Some (Inr (sorted_values s))
     \<and> map msg_id (sorted_values s) = map int [0..<N]
     \<and> mset (sorted_values s) = mset (map snd (data s))"
proof -
  let ?d = "sorted_values s"
  have idl: "map msg_id ?d = map int [0..<N]" by (rule sorted_values_ids [OF ids])
  then have len: "length ?d = N" by (metis length_map length_upt minus_nat.diff_0)
  have strict: "sorted_wrt (<) (map msg_id ?d)"
    by (simp add: idl sorted_wrt_map)
  obtain f where f: "fuel = Suc f" using fuel by (cases fuel) auto
  have "roundtrip fuel s 0 = Some (Inr ?d)"
  proof (cases "N = 0")
    case True
    with len have "?d = []" by simp
    then show ?thesis using roundtrip_empty [of s f 0] f by simp
  next
    case False
    then have pos: "0 < length ?d" using len by simp
    have "msg_id (?d ! 0) = map msg_id ?d ! 0" using pos by simp
    also have "\<dots> = 0" using False by (simp add: idl)
    finally have z: "msg_id (?d ! 0) = 0" .
    have "length ?d - 0 \<le> 10 * fuel" using fuel len by simp
    from roundtrip_from [OF strict pos this] show ?thesis by (simp add: z)
  qed
  moreover have "mset ?d = mset (map snd (data s))"
    by (simp add: sorted_values_def)
  ultimately show ?thesis using idl by simp
qed

theorem pagination_roundtrip_witness:
  "mset (map msg_id (map snd (data twelve))) = mset (map int [0..<12])
   \<and> (12::nat) div 10 < 2
   \<and> roundtrip 2 twelve 0 = Some (Inr (sorted_values twelve))
   \<and> map msg_id (sorted_values twelve) = map int [0..<12]"
proof -
  have ids: "map msg_id (map snd (data twelve)) = map int [0..<12]"
    by code_simp
  then have h: "mset (map msg_id (map snd (data twelve))) = mset (map int [0..<12])"
    by (rule arg_cong)
  have f: "(12::nat) div 10 < 2" by simp
  from pagination_roundtrip [OF h f] h f show ?thesis by simp
qed

lemma set_sorted_values: "set (sorted_values s) = snd ` set (data s)"
  by (simp add: sorted_values_def)




text \<open>
  C4. In a store that is not empty, a cursor above every id gives the empty page, with
  neither \<open>previous\<close> nor \<open>next\<close>, whatever the page size.
\<close>

theorem out_of_range_cursor:
  assumes nonempty: "data s \<noteq> []"
    and past: "\<forall>m\<in>set (map snd (data s)). msg_id m < start"
  shows "page s start limit = Inr \<lparr>pg_data = [], pg_next = None, pg_previous = None\<rparr>"
proof -
  from past have "\<forall>m\<in>set (sorted_values s). msg_id m < start"
    by (simp add: set_sorted_values)
  then have "enumerate_find (sorted_values s) start 0 = None"
    by (simp add: enumerate_find_None)
  then have "Store_list s start limit = ([], None, [])"
    by (rule Store_list_None)
  then show ?thesis by (simp add: page_def)
qed

theorem out_of_range_cursor_witness:
  "data twelve \<noteq> [] \<and> list_all (\<lambda>m. msg_id m < 12) (map snd (data twelve))
   \<and> map_of (data twelve) 11 \<noteq> None
   \<and> page twelve 12 10 = Inr \<lparr>pg_data = [], pg_next = None, pg_previous = None\<rparr>"
proof -
  have ne: "data twelve \<noteq> []" by code_simp
  have ids: "list_all (\<lambda>m. msg_id m < 12) (map snd (data twelve))" by code_simp
  then have past: "\<forall>m\<in>set (map snd (data twelve)). msg_id m < 12"
    by (simp only: list_all_iff)
  have earlier: "map_of (data twelve) 11 \<noteq> None" by code_simp
  from out_of_range_cursor [OF ne past] ne ids earlier show ?thesis by simp
qed

text \<open>
  C2. The window after the current record is \<^verbatim>\<open>data[index + 1 : index + 11]\<close> whatever
  \<open>limit\<close> is. With three records and size 1, two records follow record 0 and \<open>next\<close>
  is absent; with twelve records and size 11, eleven records follow record 0 and the
  window holds ten of them.
\<close>

theorem after_window_ignores_limit:
  "Store_list three 0 1 =
     ([], Some (Message_create 0 (JStr ''a'') (JStr ''x'') 0),
      [Message_create 1 (JStr ''a'') (JStr ''x'') 1, Message_create 2 (JStr ''a'') (JStr ''x'') 2])
   \<and> page three 0 1 =
     Inr \<lparr>pg_data = [Message_create 0 (JStr ''a'') (JStr ''x'') 0], pg_next = None, pg_previous = None\<rparr>
   \<and> length (drop 1 (sorted_values twelve)) = 11
   \<and> length (snd (snd (Store_list twelve 0 11))) = 10"
  by code_simp

section \<open>Dispatcher\<close>

lemma deprecate_entry:
  assumes "map_of dep v = Some (d, su)"
  shows "\<exists>h. deprecate dep v hs = Some h
     \<and> map_of h ''Deprecation'' = Some (AtTime d) \<and> map_of h ''Sunset'' = Some (HttpDate su)"
  using assms by (simp add: deprecate_def update_conv')

lemma respond_header:
  "name \<noteq> ''Content-Type'' \<Longrightarrow> name \<noteq> ''Cache-Control'' \<Longrightarrow> name \<noteq> ''Connection''
     \<Longrightarrow> map_of (rs_headers (respond st v b (Some h))) name = map_of h name"
  by (simp add: respond_def)

lemma dispatch_handler_result:
  assumes "rq_version rq = Some v"
    and "map_of rt v = Some methods"
    and "HTTPMethod_of (rq_command rq) = Inr m"
    and "map_of methods m = Some request_paths"
    and "rq_target rq = Inr (path, q)"
    and "find_route request_paths path = Some (h, ps)"
    and "h now store m v ps q body = Inr ((status, rbody, hs), store')"
  shows "dispatch rt dep now store rq body =
     (respond status (Some v) rbody (deprecate dep v hs), store')"
  using assms by (simp add: dispatch_def)

lemma dispatch_method_not_allowed:
  assumes "rq_version rq = Some v"
    and "map_of rt v = Some methods"
    and "HTTPMethod_of (rq_command rq) = Inr m"
    and "map_of methods m = None"
  shows "dispatch rt dep now store rq body =
     (respond METHOD_NOT_ALLOWED None (Some (error_body ''Method not allowed.'')) None, store)"
  using assms by (simp add: dispatch_def)

text \<open>
  When a handler returns, lines 201 to 205 put a \<open>Deprecation\<close> and a \<open>Sunset\<close> header
  with the two timestamps of the version's entry into the response, whatever headers
  the handler returned.
\<close>

lemma deprecation_on_handler_results:
  assumes "rq_version rq = Some v"
    and "map_of rt v = Some methods"
    and "HTTPMethod_of (rq_command rq) = Inr m"
    and "map_of methods m = Some request_paths"
    and "rq_target rq = Inr (path, q)"
    and "find_route request_paths path = Some (h, ps)"
    and "h now store m v ps q body = Inr ((status, rbody, hs), store')"
    and "map_of dep v = Some (deprecated_at, sunset_at)"
  shows "rs_status (fst (dispatch rt dep now store rq body)) = status_value status
     \<and> map_of (rs_headers (fst (dispatch rt dep now store rq body))) ''Deprecation''
         = Some (AtTime deprecated_at)
     \<and> map_of (rs_headers (fst (dispatch rt dep now store rq body))) ''Sunset''
         = Some (HttpDate sunset_at)
     \<and> has_header (fst (dispatch rt dep now store rq body)) ''Deprecation''
     \<and> has_header (fst (dispatch rt dep now store rq body)) ''Sunset''"
proof -
  from deprecate_entry [OF assms(8), of hs] obtain hd where hd: "deprecate dep v hs = Some hd"
    and d: "map_of hd ''Deprecation'' = Some (AtTime deprecated_at)"
    and s: "map_of hd ''Sunset'' = Some (HttpDate sunset_at)"
    by blast
  have r: "fst (dispatch rt dep now store rq body) = respond status (Some v) rbody (Some hd)"
    using dispatch_handler_result [OF assms(1-7), of dep] hd by simp
  have "rs_status (respond status (Some v) rbody (Some hd)) = status_value status"
    by (simp add: respond_def)
  moreover have "map_of (rs_headers (respond status (Some v) rbody (Some hd))) ''Deprecation''
      = Some (AtTime deprecated_at)"
    using d by (simp add: respond_header)
  moreover have "map_of (rs_headers (respond status (Some v) rbody (Some hd))) ''Sunset''
      = Some (HttpDate sunset_at)"
    using s by (simp add: respond_header)
  ultimately show ?thesis by (simp add: r has_header_def)
qed

lemma deprecation_on_handler_results_example:
  "rq_version get_root_v1 = Some 1
   \<and> map_of main_router 1 = Some message_routes
   \<and> HTTPMethod_of (rq_command get_root_v1) = Inr GET
   \<and> rq_target get_root_v1 = Inr (''/'', [])
   \<and> health 0 Store_init GET 1 [] [] None = Inr ((OK, Some (JDict [(''status'', JStr ''OK'')]), None), Store_init)
   \<and> map_of (main_deprecation 100 100 100 100) 1 = Some (100, 2592100)
   \<and> rs_status (fst (dispatch main_router (main_deprecation 100 100 100 100) 0 Store_init get_root_v1 None)) = 200
   \<and> has_header (fst (dispatch main_router (main_deprecation 100 100 100 100) 0 Store_init get_root_v1 None)) ''Deprecation''
   \<and> has_header (fst (dispatch main_router (main_deprecation 100 100 100 100) 0 Store_init get_root_v1 None)) ''Sunset''"
proof -
  let ?routes = "[(RootPath, health), (MessageIdPath, MessageHandlers_get),
                  (MessagePath, MessageHandlers_list)]"
  have h1: "rq_version get_root_v1 = Some 1" by (simp add: get_root_v1_def)
  have h2: "map_of main_router 1 = Some message_routes" by (simp add: main_router_def)
  have h3: "HTTPMethod_of (rq_command get_root_v1) = Inr GET"
    by (simp add: get_root_v1_def HTTPMethod_of_def)
  have h4: "map_of message_routes GET = Some ?routes" by (simp add: message_routes_def)
  have h5: "rq_target get_root_v1 = Inr (''/'', [])" by (simp add: get_root_v1_def)
  have h6: "find_route ?routes ''/'' = Some (health, [])" by simp
  have h7: "health 0 Store_init GET 1 [] [] None =
      Inr ((OK, Some (JDict [(''status'', JStr ''OK'')]), None), Store_init)"
    by (simp add: health_def)
  have h8: "map_of (main_deprecation 100 100 100 100) 1 = Some (100, 2592100)"
    by (simp add: main_deprecation_def)
  from deprecation_on_handler_results [OF h1 h2 h3 h4 h5 h6 h7 h8] h1 h2 h3 h5 h7 h8
  show ?thesis by simp
qed

text \<open>
  C5. Under a version that has a deprecation entry every response is to carry a
  \<open>Deprecation\<close> and a \<open>Sunset\<close> header. The branch for a path that no pattern matches
  returns before the lines that add them: under version 1, which has an entry,
  \<^verbatim>\<open>GET /nope\<close> is answered 404 with the version in its content type and neither
  header, while \<^verbatim>\<open>GET /message/999\<close>, the 404 a handler returns, carries both.
\<close>

theorem not_found_without_deprecation:
  "rq_version get_nope_v1 = Some 1
   \<and> map_of (main_deprecation 100 100 100 100) 1 = Some (100, 2592100)
   \<and> handle_one_request main_router (main_deprecation 100 100 100 100) 0 Store_init (Request get_nope_v1)
       = (Some (respond NOT_FOUND (Some 1) (Some (error_body ''Resource not found.'')) None), Store_init)
   \<and> \<not> has_header (respond NOT_FOUND (Some 1) (Some (error_body ''Resource not found.'')) None) ''Deprecation''
   \<and> \<not> has_header (respond NOT_FOUND (Some 1) (Some (error_body ''Resource not found.'')) None) ''Sunset''
   \<and> handle_one_request main_router (main_deprecation 100 100 100 100) 0 Store_init (Request get_missing_v1)
       = (Some (respond NOT_FOUND (Some 1) (Some (error_body ''Message with provided id not found.''))
                  (Some [(''Deprecation'', AtTime 100), (''Sunset'', HttpDate 2592100)])),
          Store_init)"
  by code_simp

text \<open>
  C6. A command that is not a member of \<^verbatim>\<open>HTTPMethod\<close> makes \<^verbatim>\<open>HTTPMethod(self.command)\<close>
  raise before the test that answers 405, and the \<^verbatim>\<open>except\<close> branch answers 500:
  \<^verbatim>\<open>FOO /\<close> under version 1, a version the router has. (A member of \<^verbatim>\<open>HTTPMethod\<close>
  without routes under the version is answered 405: \<open>dispatch_method_not_allowed\<close>.)
\<close>

theorem unknown_method_internal_error:
  "rq_version foo_root_v1 = Some 1
   \<and> 1 \<in> set (map fst main_router)
   \<and> HTTPMethod_of (rq_command foo_root_v1) = Inl ValueError
   \<and> handle_one_request main_router (main_deprecation 100 100 100 100) 0 Store_init (Request foo_root_v1)
       = (Some internal_error, Store_init)
   \<and> rs_status internal_error = 500"
  by code_simp

lemma version_zero_methods:
  "map_of main_router 0 =
     Some [(GET, [(AnyPath, gone)]), (POST, [(AnyPath, gone)]), (PUT, [(AnyPath, gone)]),
           (PATCH, [(AnyPath, gone)]), (DELETE, [(AnyPath, gone)])]"
  by (simp add: main_router_def)

lemma version_zero_routes:
  "map_of [(GET, [(AnyPath, gone)]), (POST, [(AnyPath, gone)]), (PUT, [(AnyPath, gone)]),
           (PATCH, [(AnyPath, gone)]), (DELETE, [(AnyPath, gone)])] m =
     (if m \<in> {GET, POST, PUT, PATCH, DELETE} then Some [(AnyPath, gone)] else None)"
  by (cases m) simp_all

lemma dispatch_version_zero:
  assumes "rq_version rq = Some 0"
  shows "dispatch main_router dep now store rq body =
     (case HTTPMethod_of (rq_command rq) of
        Inl e \<Rightarrow> (internal_error, store)
      | Inr m \<Rightarrow>
          if m \<in> {GET, POST, PUT, PATCH, DELETE} then
            (case rq_target rq of
               Inl e \<Rightarrow> (internal_error, store)
             | Inr (path, q) \<Rightarrow>
                 if CHR 0x0A \<in> set path
                 then (respond NOT_FOUND (Some 0) (Some (error_body ''Resource not found.'')) None, store)
                 else (respond GONE (Some 0) None (deprecate dep 0 None), store))
          else (respond METHOD_NOT_ALLOWED None (Some (error_body ''Method not allowed.'')) None, store))"
  using assms
  by (simp add: dispatch_def version_zero_methods version_zero_routes gone_def
           split: sum.splits prod.splits)

lemma HTTPMethod_of_routed:
  "command \<in> set [''GET'', ''POST'', ''PUT'', ''PATCH'', ''DELETE'']
     \<Longrightarrow> \<exists>m. HTTPMethod_of command = Inr m \<and> m \<in> {GET, POST, PUT, PATCH, DELETE}"
  by (auto simp: HTTPMethod_of_def)

text \<open>
  C7. Under version 0, a request whose method is one of GET, POST, PUT, PATCH and DELETE
  is answered 410 Gone whatever its path, and the store is left as it was; and no
  request under version 0 is answered 404, whatever its method. The path of a request
  is a word of the request line, which holds no newline, the one character \<^verbatim>\<open>.*\<close>
  does not match.
\<close>

theorem version_zero_gone:
  assumes v0: "rq_version rq = Some 0"
    and line: "\<forall>path q. rq_target rq = Inr (path, q) \<longrightarrow> CHR 0x0A \<notin> set path"
  shows "(rq_command rq \<in> set [''GET'', ''POST'', ''PUT'', ''PATCH'', ''DELETE'']
            \<and> (\<exists>path q. rq_target rq = Inr (path, q))
          \<longrightarrow> rs_status (fst (dispatch main_router dep now store rq body)) = 410
              \<and> snd (dispatch main_router dep now store rq body) = store)
     \<and> rs_status (fst (dispatch main_router dep now store rq body)) \<noteq> 404"
proof -
  have gone_part: "rs_status (fst (dispatch main_router dep now store rq body)) = 410
      \<and> snd (dispatch main_router dep now store rq body) = store"
    if a: "rq_command rq \<in> set [''GET'', ''POST'', ''PUT'', ''PATCH'', ''DELETE'']
      \<and> (\<exists>path q. rq_target rq = Inr (path, q))"
  proof -
    from a obtain m path q where m: "HTTPMethod_of (rq_command rq) = Inr m"
      "m \<in> {GET, POST, PUT, PATCH, DELETE}" and t: "rq_target rq = Inr (path, q)"
      using HTTPMethod_of_routed by blast
    from line t have nl: "CHR 0x0A \<notin> set path" by blast
    have "dispatch main_router dep now store rq body =
        (respond GONE (Some 0) None (deprecate dep 0 None), store)"
      using m t nl by (simp add: dispatch_version_zero [OF v0])
    then show ?thesis by (simp add: respond_def)
  qed
  have never_404: "rs_status (fst (dispatch main_router dep now store rq body)) \<noteq> 404"
    using line
    by (auto simp: dispatch_version_zero [OF v0] respond_def internal_error_def
             split: sum.splits prod.splits)
  from gone_part never_404 show ?thesis by blast
qed

theorem version_zero_gone_witness:
  "rq_version delete_item_v0 = Some 0
   \<and> rq_target delete_item_v0 = Inr (''/message/7'', [])
   \<and> CHR 0x0A \<notin> set ''/message/7''
   \<and> rq_command delete_item_v0 \<in> set [''GET'', ''POST'', ''PUT'', ''PATCH'', ''DELETE'']
   \<and> rs_status (fst (dispatch main_router (main_deprecation 100 100 100 100) 0 three delete_item_v0 None)) = 410
   \<and> snd (dispatch main_router (main_deprecation 100 100 100 100) 0 three delete_item_v0 None) = three
   \<and> rs_status (fst (dispatch main_router (main_deprecation 100 100 100 100) 0 three delete_item_v0 None)) \<noteq> 404"
proof -
  have h1: "rq_version delete_item_v0 = Some 0" by (simp add: delete_item_v0_def)
  have t: "rq_target delete_item_v0 = Inr (''/message/7'', [])" by (simp add: delete_item_v0_def)
  have nl: "CHR 0x0A \<notin> set ''/message/7''" by simp
  have h2: "\<forall>path q. rq_target delete_item_v0 = Inr (path, q) \<longrightarrow> CHR 0x0A \<notin> set path"
    using t nl by simp
  have c: "rq_command delete_item_v0 \<in> set [''GET'', ''POST'', ''PUT'', ''PATCH'', ''DELETE'']"
    by (simp add: delete_item_v0_def)
  from version_zero_gone [OF h1 h2, of "main_deprecation 100 100 100 100" 0 three None] h1 t nl c
  show ?thesis by blast
qed

theorem version_zero_head_not_gone:
  "rq_version head_root_v0 = Some 0
   \<and> HTTPMethod_of (rq_command head_root_v0) = Inr HEAD
   \<and> handle_one_request main_router (main_deprecation 100 100 100 100) 0 Store_init (Request head_root_v0)
       = (Some (respond METHOD_NOT_ALLOWED None (Some (error_body ''Method not allowed.'')) None), Store_init)
   \<and> rs_status (respond METHOD_NOT_ALLOWED None (Some (error_body ''Method not allowed.'')) None) = 405"
  by code_simp

section \<open>Updating a record\<close>

lemma Store_get_updated:
  "Store_get (store\<lparr>data := AList.update i m (data store)\<rparr>) j = (if j = i then Some m else Store_get store j)"
  by (simp add: Store_get_def update_conv')

lemma body_get_dict:
  "body_get (Some (JDict d)) key = Inr (case map_of d key of None \<Rightarrow> JNull | Some v \<Rightarrow> v)"
  by (simp add: body_get_def)

lemma MessageHandlers_patch_found:
  assumes "params_id ps = Inr i" and "Store_get store i = Some m"
  shows "MessageHandlers_patch now store meth version ps q (Some (JDict d)) =
     (let a = (case map_of d ''author'' of None \<Rightarrow> JNull | Some v \<Rightarrow> v);
          c = (case map_of d ''content'' of None \<Rightarrow> JNull | Some v \<Rightarrow> v);
          m1 = (if a \<noteq> JNull then m\<lparr>msg_author := a\<rparr> else m);
          m2 = (if c \<noteq> JNull then m1\<lparr>msg_content := c\<rparr> else m1);
          m' = m2\<lparr>msg_updated := now\<rparr>
      in Inr ((OK, Some (to_dict m'), None), store\<lparr>data := AList.update i m' (data store)\<rparr>))"
  using assms
  by (simp add: MessageHandlers_patch_def body_get_dict Store_patch_def Store_get_def Let_def)

lemma MessageHandlers_put_found:
  assumes "params_id ps = Inr i" and "Store_get store i = Some m"
  shows "MessageHandlers_put now store meth version ps q (Some (JDict d)) =
     (let a = (case map_of d ''author'' of None \<Rightarrow> JNull | Some v \<Rightarrow> v);
          c = (case map_of d ''content'' of None \<Rightarrow> JNull | Some v \<Rightarrow> v);
          m' = m\<lparr>msg_author := a, msg_content := c, msg_updated := now\<rparr>
      in Inr ((OK, Some (to_dict m'), None), store\<lparr>data := AList.update i m' (data store)\<rparr>))"
  using assms
  by (simp add: MessageHandlers_put_def body_get_dict Store_put_def Store_get_def Let_def)

text \<open>
  C9. For a record that exists, \<^verbatim>\<open>PATCH\<close> with a body that has no author and a content
  other than \<^verbatim>\<open>null\<close> answers 200 with the record, whose author, id and created are
  unchanged, whose content is the supplied value and whose updated is the clock reading
  taken by the write: it is above the former updated exactly when that reading is.
  Every other record and the id counter are untouched.
\<close>

theorem patch_content_only:
  assumes ident: "params_id ps = Inr i"
    and found: "Store_get store i = Some m"
    and body: "body = Some (JDict d)"
    and no_author: "map_of d ''author'' = None"
    and content: "map_of d ''content'' = Some c"
    and supplied: "c \<noteq> JNull"
  shows "\<exists>m' store'.
       MessageHandlers_patch now store meth version ps q body =
         Inr ((OK, Some (to_dict m'), None), store')
     \<and> Store_get store' i = Some m'
     \<and> msg_author m' = msg_author m \<and> msg_id m' = msg_id m \<and> msg_created m' = msg_created m
     \<and> msg_content m' = c
     \<and> msg_updated m' = now
     \<and> (msg_updated m < msg_updated m') = (msg_updated m < now)
     \<and> (\<forall>j. j \<noteq> i \<longrightarrow> Store_get store' j = Store_get store j)
     \<and> next_id store' = next_id store"
proof -
  let ?m' = "m\<lparr>msg_content := c, msg_updated := now\<rparr>"
  let ?store' = "store\<lparr>data := AList.update i ?m' (data store)\<rparr>"
  have "MessageHandlers_patch now store meth version ps q body =
      Inr ((OK, Some (to_dict ?m'), None), ?store')"
    using MessageHandlers_patch_found [OF ident found, of now meth version q d]
      no_author content supplied
    by (simp add: body Let_def)
  moreover have "Store_get ?store' i = Some ?m'"
    by (simp add: Store_get_updated)
  moreover have "\<forall>j. j \<noteq> i \<longrightarrow> Store_get ?store' j = Store_get store j"
    by (simp add: Store_get_updated)
  ultimately show ?thesis
    by (intro exI [of _ ?m'] exI [of _ ?store']) simp
qed

theorem patch_content_only_witness:
  "params_id [(''id'', ''1'')] = Inr 1
   \<and> Store_get three 1 = Some (Message_create 1 (JStr ''a'') (JStr ''x'') 1)
   \<and> map_of [(''content'', JStr ''z'')] ''author'' = None
   \<and> map_of [(''content'', JStr ''z'')] ''content'' = Some (JStr ''z'')
   \<and> JStr ''z'' \<noteq> JNull
   \<and> (\<exists>m' store'.
         MessageHandlers_patch 7 three PATCH 1 [(''id'', ''1'')] [] (Some (JDict [(''content'', JStr ''z'')]))
           = Inr ((OK, Some (to_dict m'), None), store')
       \<and> Store_get store' 1 = Some m'
       \<and> msg_author m' = JStr ''a'' \<and> msg_id m' = 1 \<and> msg_created m' = 1
       \<and> msg_content m' = JStr ''z'' \<and> msg_updated m' = 7)"
proof -
  let ?m = "Message_create 1 (JStr ''a'') (JStr ''x'') 1"
  let ?d = "[(''content'', JStr ''z'')]"
  have h1: "params_id [(''id'', ''1'')] = Inr 1" by code_simp
  have h2: "Store_get three 1 = Some ?m" by code_simp
  have h3: "Some (JDict ?d) = Some (JDict ?d)" by (rule refl)
  have h4: "map_of ?d ''author'' = None" by simp
  have h5: "map_of ?d ''content'' = Some (JStr ''z'')" by simp
  have h6: "JStr ''z'' \<noteq> JNull" by simp
  have m: "msg_author ?m = JStr ''a''" "msg_id ?m = 1" "msg_created ?m = 1"
    by (simp_all add: Message_create_def)
  from patch_content_only [OF h1 h2 h3 h4 h5 h6, of 7 PATCH 1 "[]"]
  have "\<exists>m' store'.
         MessageHandlers_patch 7 three PATCH 1 [(''id'', ''1'')] [] (Some (JDict ?d))
           = Inr ((OK, Some (to_dict m'), None), store')
       \<and> Store_get store' 1 = Some m'
       \<and> msg_author m' = JStr ''a'' \<and> msg_id m' = 1 \<and> msg_created m' = 1
       \<and> msg_content m' = JStr ''z'' \<and> msg_updated m' = 7"
    unfolding m by fastforce
  with h1 h2 h4 h5 h6 show ?thesis by simp
qed

theorem patch_counterexample:
  "Store_get three 0 = Some (Message_create 0 (JStr ''a'') (JStr ''x'') 0)
   \<and> MessageHandlers_patch 0 three PATCH 1 [(''id'', ''0'')] [] (Some (JDict [(''content'', JStr ''z'')]))
       = Inr ((OK, Some (to_dict \<lparr>msg_id = 0, msg_author = JStr ''a'', msg_content = JStr ''z'',
                                  msg_created = 0, msg_updated = 0\<rparr>), None),
              three\<lparr>data := AList.update 0 \<lparr>msg_id = 0, msg_author = JStr ''a'', msg_content = JStr ''z'',
                                  msg_created = 0, msg_updated = 0\<rparr> (data three)\<rparr>)
   \<and> \<not> (msg_updated (Message_create 0 (JStr ''a'') (JStr ''x'') 0) < 0)
   \<and> MessageHandlers_patch 9 three PATCH 1 [(''id'', ''0'')] [] (Some (JDict [(''content'', JNull)]))
       = Inr ((OK, Some (to_dict \<lparr>msg_id = 0, msg_author = JStr ''a'', msg_content = JStr ''x'',
                                  msg_created = 0, msg_updated = 9\<rparr>), None),
              three\<lparr>data := AList.update 0 \<lparr>msg_id = 0, msg_author = JStr ''a'', msg_content = JStr ''x'',
                                  msg_created = 0, msg_updated = 9\<rparr> (data three)\<rparr>)"
  by code_simp

text \<open>
  C10. For a record that exists, \<^verbatim>\<open>PUT\<close> with a body that is a JSON object answers 200
  and writes \<^verbatim>\<open>body.get("author")\<close> and \<^verbatim>\<open>body.get("content")\<close> into the record: a field
  the body omits becomes \<^verbatim>\<open>None\<close>; it is neither kept nor is the request refused.
\<close>

theorem put_overwrites_omitted:
  assumes ident: "params_id ps = Inr i"
    and found: "Store_get store i = Some m"
    and body: "body = Some (JDict d)"
  shows "\<exists>m' store'.
       MessageHandlers_put now store meth version ps q body =
         Inr ((OK, Some (to_dict m'), None), store')
     \<and> Store_get store' i = Some m'
     \<and> msg_author m' = (case map_of d ''author'' of None \<Rightarrow> JNull | Some v \<Rightarrow> v)
     \<and> msg_content m' = (case map_of d ''content'' of None \<Rightarrow> JNull | Some v \<Rightarrow> v)
     \<and> (map_of d ''author'' = None \<longrightarrow> msg_author m' = JNull)
     \<and> (map_of d ''content'' = None \<longrightarrow> msg_content m' = JNull)
     \<and> msg_id m' = msg_id m \<and> msg_created m' = msg_created m \<and> msg_updated m' = now"
proof -
  let ?a = "case map_of d ''author'' of None \<Rightarrow> JNull | Some v \<Rightarrow> v"
  let ?c = "case map_of d ''content'' of None \<Rightarrow> JNull | Some v \<Rightarrow> v"
  let ?m' = "m\<lparr>msg_author := ?a, msg_content := ?c, msg_updated := now\<rparr>"
  let ?store' = "store\<lparr>data := AList.update i ?m' (data store)\<rparr>"
  have "MessageHandlers_put now store meth version ps q body =
      Inr ((OK, Some (to_dict ?m'), None), ?store')"
    using MessageHandlers_put_found [OF ident found, of now meth version q d]
    by (simp add: body Let_def)
  moreover have "Store_get ?store' i = Some ?m'"
    by (simp add: Store_get_updated)
  ultimately show ?thesis
    by (intro exI [of _ ?m'] exI [of _ ?store']) simp
qed


theorem put_overwrites_omitted_witness:
  "params_id [(''id'', ''1'')] = Inr 1
   \<and> Store_get three 1 = Some (Message_create 1 (JStr ''a'') (JStr ''x'') 1)
   \<and> map_of [(''content'', JStr ''z'')] ''author'' = None
   \<and> (\<exists>m' store'.
         MessageHandlers_put 7 three PUT 1 [(''id'', ''1'')] [] (Some (JDict [(''content'', JStr ''z'')]))
           = Inr ((OK, Some (to_dict m'), None), store')
       \<and> Store_get store' 1 = Some m'
       \<and> msg_author m' = JNull \<and> msg_content m' = JStr ''z'')"
proof -
  let ?m = "Message_create 1 (JStr ''a'') (JStr ''x'') 1"
  let ?d = "[(''content'', JStr ''z'')]"
  have h1: "params_id [(''id'', ''1'')] = Inr 1" by code_simp
  have h2: "Store_get three 1 = Some ?m" by code_simp
  have h3: "Some (JDict ?d) = Some (JDict ?d)" by (rule refl)
  have h4: "map_of ?d ''author'' = None" by simp
  from put_overwrites_omitted [OF h1 h2 h3, of 7 PUT 1 "[]"]
  have "\<exists>m' store'.
         MessageHandlers_put 7 three PUT 1 [(''id'', ''1'')] [] (Some (JDict ?d))
           = Inr ((OK, Some (to_dict m'), None), store')
       \<and> Store_get store' 1 = Some m'
       \<and> msg_author m' = JNull \<and> msg_content m' = JStr ''z''"
    by fastforce
  with h1 h2 h4 show ?thesis by simp
qed

end
